theory Spec2Isabelle
  imports Main "HOL-Library.Finite_Map"
begin

section \<open>JavaScript values\<close>

text \<open>
  The block editor passes plain JSON-like data around: block attributes, the nested
  \<open>style\<close> object and the \<open>supports\<close> configuration of a block type.  An object is a
  finite map from property names to values (a property is looked up by name, and no name
  occurs twice); an array is a list.  Numbers are opaque payload here and are kept as
  integers.
\<close>

datatype jsval =
    JUndefined
  | JNull
  | JBool bool
  | JNum int
  | JStr string
  | JArr "jsval list"
  | JObj "(string, jsval) fmap"

datatype error = TypeError

text \<open>\<open>ToBoolean\<close>: what \<open>!x\<close> and \<open>x && ...\<close> test.\<close>

fun toBoolean :: "jsval \<Rightarrow> bool" where
  "toBoolean JUndefined = False"
| "toBoolean JNull = False"
| "toBoolean (JBool b) = b"
| "toBoolean (JNum n) = (n \<noteq> 0)"
| "toBoolean (JStr s) = (s \<noteq> [])"
| "toBoolean (JArr xs) = True"
| "toBoolean (JObj m) = True"

fun typeof :: "jsval \<Rightarrow> string" where
  "typeof JUndefined = ''undefined''"
| "typeof JNull = ''object''"
| "typeof (JBool b) = ''boolean''"
| "typeof (JNum n) = ''number''"
| "typeof (JStr s) = ''string''"
| "typeof (JArr xs) = ''object''"
| "typeof (JObj m) = ''object''"

text \<open>
  The name under which an array element is a property: its index written in decimal
  digits, most significant first.
\<close>

definition digit :: "nat \<Rightarrow> char" where
  "digit d = ''0123456789'' ! d"

fun indexName :: "nat \<Rightarrow> string" where
  "indexName i = (if i div 10 = 0 then [] else indexName (i div 10)) @ [digit (i mod 10)]"

definition indexEntries :: "jsval list \<Rightarrow> (string, jsval) fmap" where
  "indexEntries xs = fmap_of_list (zip (map indexName [0..<length xs]) xs)"

definition charValues :: "string \<Rightarrow> jsval list" where
  "charValues s = map (\<lambda>c. JStr [c]) s"

text \<open>
  Object spread \<open>{ ...v }\<close>: the own enumerable properties of \<open>v\<close>.  An object gives its
  entries, an array and a string give their indexed elements, and \<open>undefined\<close>, \<open>null\<close>,
  booleans and numbers give nothing.
\<close>

fun spread :: "jsval \<Rightarrow> (string, jsval) fmap" where
  "spread (JObj m) = m"
| "spread (JArr xs) = indexEntries xs"
| "spread (JStr s) = indexEntries (charValues s)"
| "spread JUndefined = fmempty"
| "spread JNull = fmempty"
| "spread (JBool b) = fmempty"
| "spread (JNum n) = fmempty"

definition orUndefined :: "jsval option \<Rightarrow> jsval" where
  "orUndefined r = (case r of None \<Rightarrow> JUndefined | Some v \<Rightarrow> v)"

text \<open>
  Property read \<open>v[k]\<close> on a value that is neither \<open>undefined\<close> nor \<open>null\<close> (every read in
  the modelled code is behind such a guard): data properties only, a missing property
  reads as \<open>undefined\<close>.
\<close>

fun getProp :: "jsval \<Rightarrow> string \<Rightarrow> jsval" where
  "getProp (JObj m) k = orUndefined (fmlookup m k)"
| "getProp (JArr xs) k =
     (if k = ''length'' then JNum (int (length xs))
      else orUndefined (fmlookup (indexEntries xs) k))"
| "getProp (JStr s) k =
     (if k = ''length'' then JNum (int (length s))
      else orUndefined (fmlookup (indexEntries (charValues s)) k))"
| "getProp v k = JUndefined"

text \<open>Optional chaining \<open>v?.k\<close>.\<close>

definition optChain :: "jsval \<Rightarrow> string \<Rightarrow> jsval" where
  "optChain v k = (if v = JUndefined \<or> v = JNull then JUndefined else getProp v k)"

text \<open>\<open>Array.prototype.some\<close> and \<open>Array.prototype.includes\<close>.\<close>

definition some :: "('a \<Rightarrow> bool) \<Rightarrow> 'a list \<Rightarrow> bool" where
  "some p xs = list_ex p xs"

definition includes_arr :: "jsval list \<Rightarrow> jsval \<Rightarrow> bool" where
  "includes_arr xs v = (v \<in> set xs)"

section \<open>The host: block props and the surrounding editor\<close>

record props =
  name :: string
  attributes :: jsval

text \<open>
  What the panel imports from the rest of the editor is a parameter of the model: the
  platform, the block-support lookup of the block registry, and the per-feature support
  and disabled predicates of the sibling feature modules.  \<open>getBlockSupport\<close> takes the
  block name and the path of keys into the block type's \<open>supports\<close>; a single key is the
  path of that one key.  \<open>setAttributes\<close>, the other member of the props, is the setter
  whose calls the reset records.
\<close>

record env =
  Platform_OS :: string
  getBlockSupport :: "string \<Rightarrow> string list \<Rightarrow> jsval"
  hasHeightSupport :: "string \<Rightarrow> bool"
  hasMinHeightSupport :: "string \<Rightarrow> bool"
  hasPaddingSupport :: "string \<Rightarrow> bool"
  hasMarginSupport :: "string \<Rightarrow> bool"
  useIsHeightDisabled :: "props \<Rightarrow> bool"
  useIsMinHeightDisabled :: "props \<Rightarrow> bool"
  useIsPaddingDisabled :: "props \<Rightarrow> bool"
  useIsMarginDisabled :: "props \<Rightarrow> bool"

definition DIMENSIONS_SUPPORT_KEY :: string where
  "DIMENSIONS_SUPPORT_KEY = ''__experimentalDimensions''"

definition SPACING_SUPPORT_KEY :: string where
  "SPACING_SUPPORT_KEY = ''spacing''"

definition ALL_SIDES :: "jsval list" where
  "ALL_SIDES = [JStr ''top'', JStr ''right'', JStr ''bottom'', JStr ''left'']"

definition AXIAL_SIDES :: "jsval list" where
  "AXIAL_SIDES = [JStr ''vertical'', JStr ''horizontal'']"

section \<open>Side configuration\<close>

definition useCustomSides :: "env \<Rightarrow> string \<Rightarrow> string \<Rightarrow> jsval" where
  "useCustomSides E blockName feature =
     (let support = getBlockSupport E blockName [SPACING_SUPPORT_KEY]
      in if \<not> toBoolean support \<or> typeof (getProp support feature) = ''boolean''
         then JUndefined
         else getProp support feature)"

definition sidesWarning :: "string \<Rightarrow> string \<Rightarrow> string" where
  "sidesWarning feature blockName =
     ''The '' @ feature @ '' support for the '' @ [CHR 0x22] @ blockName @ [CHR 0x22] @
     '' block can not be configured to support both axial and arbitrary sides.''"

text \<open>
  The validator returns a boolean and may write to the console; the model returns the
  pair of the result and the list of warnings written.  A configured value that is truthy
  but no array has no \<open>some\<close> method, and the call raises.
\<close>

definition useIsDimensionsSupportValid ::
    "env \<Rightarrow> string \<Rightarrow> string \<Rightarrow> (error + bool) \<times> string list" where
  "useIsDimensionsSupportValid E blockName feature =
     (let sides = useCustomSides E blockName feature
      in if \<not> toBoolean sides then (Inr True, [])
         else case sides of
           JArr xs \<Rightarrow>
             if some (\<lambda>side. includes_arr ALL_SIDES side) xs \<and>
                some (\<lambda>side. includes_arr AXIAL_SIDES side) xs
             then (Inr False, [sidesWarning feature blockName])
             else (Inr True, [])
         | _ \<Rightarrow> (Inl TypeError, []))"

section \<open>Pruning empty containers\<close>

text \<open>
  Modelled from the spec: what the pruning rule of \<open>cleanEmptyObject\<close> (imported from
  the hooks' \<open>utils\<close> module, whose source is not among the files at hand) removes from
  the object that holds it: a field that is absent, and a nested container that is empty.
\<close>

definition isVacuous :: "jsval \<Rightarrow> bool" where
  "isVacuous v = (v = JUndefined \<or> v = JObj fmempty)"

text \<open>
  Modelled from the spec: one level of the pruning rule of \<open>cleanEmptyObject\<close>, the
  entries of an object that remain.
\<close>

definition pruneEntries :: "(string, jsval) fmap \<Rightarrow> (string, jsval) fmap" where
  "pruneEntries m =
     fmfilter (\<lambda>k. case fmlookup m k of None \<Rightarrow> False | Some v \<Rightarrow> \<not> isVacuous v) m"

text \<open>
  Modelled from the spec: \<open>cleanEmptyObject\<close> is imported from the hooks' \<open>utils\<close>
  module, whose source is not among the files at hand.  The specification describes it as
  the rule that "recursively strips empty nested objects": the nested values are cleaned
  first, and a field that is absent or a nested container that has become empty is then
  removed from the object that holds it, transitively, so that a style emptied completely
  becomes \<open>{}\<close>.  Values that are no objects are left as they are.
\<close>

primrec cleanEmptyObject :: "jsval \<Rightarrow> jsval" where
  "cleanEmptyObject JUndefined = JUndefined"
| "cleanEmptyObject JNull = JNull"
| "cleanEmptyObject (JBool b) = JBool b"
| "cleanEmptyObject (JNum n) = JNum n"
| "cleanEmptyObject (JStr s) = JStr s"
| "cleanEmptyObject (JArr xs) = JArr xs"
| "cleanEmptyObject (JObj m) = JObj (pruneEntries (fmmap cleanEmptyObject m))"

text \<open>
  The containers of a value are the objects reached through object properties.  The
  predicate says that none of them, below the value itself, is the empty object.
\<close>

primrec noEmptyContainers :: "jsval \<Rightarrow> bool" where
  "noEmptyContainers JUndefined = True"
| "noEmptyContainers JNull = True"
| "noEmptyContainers (JBool b) = True"
| "noEmptyContainers (JNum n) = True"
| "noEmptyContainers (JStr s) = True"
| "noEmptyContainers (JArr xs) = True"
| "noEmptyContainers (JObj m) =
     (fmpred (\<lambda>k v. v \<noteq> JObj fmempty) m \<and> fmpred (\<lambda>k b. b) (fmmap noEmptyContainers m))"

section \<open>The dimensions panel\<close>

text \<open>
  The argument of \<open>cleanEmptyObject\<close> in \<open>resetAll\<close>, as a function of the current
  \<open>style\<close>: the object literal spreads \<open>style\<close>, then writes \<open>dimensions\<close> and
  \<open>spacing\<close>, each a spread of the current category with its two features written as
  \<open>undefined\<close>.
\<close>

definition resetAllStyle :: "jsval \<Rightarrow> jsval" where
  "resetAllStyle style =
     cleanEmptyObject (JObj
       (fmupd ''spacing''
          (JObj (fmupd ''padding'' JUndefined (fmupd ''margin'' JUndefined
             (spread (optChain style ''spacing'')))))
       (fmupd ''dimensions''
          (JObj (fmupd ''minHeight'' JUndefined (fmupd ''height'' JUndefined
             (spread (optChain style ''dimensions'')))))
       (spread style))))"

text \<open>
  \<open>resetAll\<close> has no result; its effect is the sequence of calls of \<open>props.setAttributes\<close>,
  each recorded by its argument.  Destructuring \<open>props.attributes\<close> raises when it is
  \<open>undefined\<close> or \<open>null\<close>.
\<close>

definition resetAll :: "props \<Rightarrow> error + jsval list" where
  "resetAll props =
     (if attributes props = JUndefined \<or> attributes props = JNull then Inl TypeError
      else let style = getProp (attributes props) ''style''
           in Inr [JObj (fmupd ''style'' (resetAllStyle style) fmempty)])"

definition hasDimensionsSupport :: "env \<Rightarrow> string \<Rightarrow> bool" where
  "hasDimensionsSupport E blockName =
     (if Platform_OS E \<noteq> ''web'' then False
      else hasHeightSupport E blockName \<or> hasMinHeightSupport E blockName \<or>
           hasPaddingSupport E blockName \<or> hasMarginSupport E blockName)"

definition useIsDimensionsDisabled :: "env \<Rightarrow> props \<Rightarrow> bool" where
  "useIsDimensionsDisabled E props =
     (let heightDisabled = useIsHeightDisabled E props;
          minHeightDisabled = useIsMinHeightDisabled E props;
          paddingDisabled = useIsPaddingDisabled E props;
          marginDisabled = useIsMarginDisabled E props
      in heightDisabled \<and> minHeightDisabled \<and> paddingDisabled \<and> marginDisabled)"

text \<open>
  What the panel renders: the tools panel with its reset action (recorded by its effect)
  and the items of the features that are not disabled, in the order of the source, each
  with its class, its label, its default visibility and the edit control it wraps.
  \<open>None\<close> is the \<open>null\<close> of a component that renders nothing.
\<close>

datatype control = HeightEdit | MinHeightEdit | PaddingEdit | MarginEdit

record toolsPanelItem =
  className :: "string option"
  label :: string
  isShownByDefault :: jsval
  child :: control

record toolsPanel =
  key :: string
  panelLabel :: string
  header :: string
  onResetAll :: "error + jsval list"
  items :: "toolsPanelItem list"

definition DimensionsPanel :: "env \<Rightarrow> props \<Rightarrow> toolsPanel option" where
  "DimensionsPanel E props =
     (let isPaddingDisabled = useIsPaddingDisabled E props;
          isMarginDisabled = useIsMarginDisabled E props;
          isHeightDisabled = useIsHeightDisabled E props;
          isMinHeightDisabled = useIsMinHeightDisabled E props;
          isDisabled = useIsDimensionsDisabled E props;
          isSupported = hasDimensionsSupport E (name props)
      in if isDisabled \<or> \<not> isSupported then None
         else
           let defaultDimensionsControls =
                 getBlockSupport E (name props)
                   [DIMENSIONS_SUPPORT_KEY, ''__experimentalDefaultControls''];
               defaultSpacingControls =
                 getBlockSupport E (name props)
                   [SPACING_SUPPORT_KEY, ''__experimentalDefaultControls'']
           in Some \<lparr> key = ''dimensions'',
                     panelLabel = ''Dimensions options'',
                     header = ''Dimensions'',
                     onResetAll = resetAll props,
                     items =
                       (if \<not> isHeightDisabled
                        then [\<lparr> className = Some ''single-column'', label = ''Height'',
                                 isShownByDefault = optChain defaultDimensionsControls ''height'',
                                 child = HeightEdit \<rparr>]
                        else []) @
                       (if \<not> isMinHeightDisabled
                        then [\<lparr> className = Some ''single-column'', label = ''Minimum height'',
                                 isShownByDefault = optChain defaultDimensionsControls ''minHeight'',
                                 child = MinHeightEdit \<rparr>]
                        else []) @
                       (if \<not> isPaddingDisabled
                        then [\<lparr> className = None, label = ''Padding'',
                                 isShownByDefault = optChain defaultSpacingControls ''padding'',
                                 child = PaddingEdit \<rparr>]
                        else []) @
                       (if \<not> isMarginDisabled
                        then [\<lparr> className = None, label = ''Margin'',
                                 isShownByDefault = optChain defaultSpacingControls ''margin'',
                                 child = MarginEdit \<rparr>]
                        else []) \<rparr>)"

section \<open>The reset as the specification words it\<close>

text \<open>
  "Set to absent": the feature's field is removed from its category, where the style has
  that category; a style without the category is left as it is.
\<close>

definition setAbsent ::
    "string \<Rightarrow> string \<Rightarrow> (string, jsval) fmap \<Rightarrow> (string, jsval) fmap" where
  "setAbsent category feature s =
     (case fmlookup s category of
        Some (JObj c) \<Rightarrow> fmupd category (JObj (fmdrop feature c)) s
      | _ \<Rightarrow> s)"

definition resetAllSpec :: "(string, jsval) fmap \<Rightarrow> jsval" where
  "resetAllSpec s =
     cleanEmptyObject (JObj
       (setAbsent ''spacing'' ''padding'' (setAbsent ''spacing'' ''margin''
       (setAbsent ''dimensions'' ''minHeight'' (setAbsent ''dimensions'' ''height'' s)))))"

text \<open>
  A style object in the sense of the data model: its categories hold feature keys, that
  is, \<open>dimensions\<close> and \<open>spacing\<close> are objects where they are present.
\<close>

definition isCategory :: "jsval option \<Rightarrow> bool" where
  "isCategory r =
     (case r of None \<Rightarrow> True | Some JUndefined \<Rightarrow> True | Some (JObj c) \<Rightarrow> True | Some _ \<Rightarrow> False)"

definition isStyleObject :: "jsval \<Rightarrow> bool" where
  "isStyleObject v =
     (case v of
        JObj s \<Rightarrow> isCategory (fmlookup s ''dimensions'') \<and> isCategory (fmlookup s ''spacing'')
      | _ \<Rightarrow> False)"

text \<open>
  Modelled from the spec: \<open>resetMargin\<close> is imported from the \<open>margin\<close> module, whose
  source is not at hand.  The specification gives each feature an individual reset that
  "removes only its own feature field, applying the same empty-object-pruning rule", as
  one update of the attributes.
\<close>

definition resetMargin :: "props \<Rightarrow> jsval list" where
  "resetMargin props =
     (let style = optChain (attributes props) ''style''
      in [JObj (fmupd ''style''
            (cleanEmptyObject (JObj (setAbsent ''spacing'' ''margin'' (spread style))))
            fmempty)])"

section \<open>Style metadata\<close>

record styleProperty =
  "value" :: "string list"
  support :: "string list"
  properties :: "(string \<times> string) list option"

definition EXPERIMENTAL_STYLE_PROPERTY :: "(string \<times> styleProperty) list" where
  "EXPERIMENTAL_STYLE_PROPERTY =
   [ (''--wp--style--color--link'',
        \<lparr> value = [''color'', ''link''], support = [''color'', ''link''], properties = None \<rparr>),
     (''background'',
        \<lparr> value = [''color'', ''gradient''], support = [''color'', ''gradients''],
          properties = None \<rparr>),
     (''backgroundColor'',
        \<lparr> value = [''color'', ''background''], support = [''color''], properties = None \<rparr>),
     (''borderColor'',
        \<lparr> value = [''border'', ''color''], support = [''__experimentalBorder'', ''color''],
          properties = None \<rparr>),
     (''borderRadius'',
        \<lparr> value = [''border'', ''radius''], support = [''__experimentalBorder'', ''radius''],
          properties = Some
            [ (''borderTopLeftRadius'', ''topLeft''),
              (''borderTopRightRadius'', ''topRight''),
              (''borderBottomLeftRadius'', ''bottomLeft''),
              (''borderBottomRightRadius'', ''bottomRight'') ] \<rparr>),
     (''borderStyle'',
        \<lparr> value = [''border'', ''style''], support = [''__experimentalBorder'', ''style''],
          properties = None \<rparr>),
     (''borderWidth'',
        \<lparr> value = [''border'', ''width''], support = [''__experimentalBorder'', ''width''],
          properties = None \<rparr>),
     (''color'',
        \<lparr> value = [''color'', ''text''], support = [''color''], properties = None \<rparr>),
     (''linkColor'',
        \<lparr> value = [''elements'', ''link'', ''color'', ''text''], support = [''color'', ''link''],
          properties = None \<rparr>),
     (''fontFamily'',
        \<lparr> value = [''typography'', ''fontFamily''],
          support = [''typography'', ''__experimentalFontFamily''], properties = None \<rparr>),
     (''fontSize'',
        \<lparr> value = [''typography'', ''fontSize''], support = [''typography'', ''fontSize''],
          properties = None \<rparr>),
     (''fontStyle'',
        \<lparr> value = [''typography'', ''fontStyle''],
          support = [''typography'', ''__experimentalFontStyle''], properties = None \<rparr>),
     (''fontWeight'',
        \<lparr> value = [''typography'', ''fontWeight''],
          support = [''typography'', ''__experimentalFontWeight''], properties = None \<rparr>),
     (''lineHeight'',
        \<lparr> value = [''typography'', ''lineHeight''], support = [''typography'', ''lineHeight''],
          properties = None \<rparr>),
     (''margin'',
        \<lparr> value = [''spacing'', ''margin''], support = [''spacing'', ''margin''],
          properties = Some
            [ (''marginTop'', ''top''), (''marginRight'', ''right''),
              (''marginBottom'', ''bottom''), (''marginLeft'', ''left'') ] \<rparr>),
     (''padding'',
        \<lparr> value = [''spacing'', ''padding''], support = [''spacing'', ''padding''],
          properties = Some
            [ (''paddingTop'', ''top''), (''paddingRight'', ''right''),
              (''paddingBottom'', ''bottom''), (''paddingLeft'', ''left'') ] \<rparr>),
     (''textDecoration'',
        \<lparr> value = [''typography'', ''textDecoration''],
          support = [''typography'', ''__experimentalTextDecoration''], properties = None \<rparr>),
     (''textTransform'',
        \<lparr> value = [''typography'', ''textTransform''],
          support = [''typography'', ''__experimentalTextTransform''], properties = None \<rparr>),
     (''letterSpacing'',
        \<lparr> value = [''typography'', ''letterSpacing''],
          support = [''__experimentalLetterSpacing''], properties = None \<rparr>) ]"

text \<open>Reading the table by a logical property name.\<close>

definition styleProperty :: "string \<Rightarrow> styleProperty option" where
  "styleProperty propertyName = map_of EXPERIMENTAL_STYLE_PROPERTY propertyName"

section \<open>Concrete hosts\<close>

text \<open>
  A registry in which every block type declares the given value under \<open>spacing\<close> and
  nothing else, and hosts built on it: one on the web where every feature is supported
  and enabled, one on the web where no feature is supported, one where every feature is
  disabled, and a native one.
\<close>

definition spacingRegistry :: "jsval \<Rightarrow> string \<Rightarrow> string list \<Rightarrow> jsval" where
  "spacingRegistry declared blockName path =
     (if path = [SPACING_SUPPORT_KEY] then declared else JUndefined)"

definition always :: "'a \<Rightarrow> bool" where
  "always x = True"

definition never :: "'a \<Rightarrow> bool" where
  "never x = False"

definition webHost :: "jsval \<Rightarrow> env" where
  "webHost declared =
     \<lparr> Platform_OS = ''web'', getBlockSupport = spacingRegistry declared,
       hasHeightSupport = always, hasMinHeightSupport = always,
       hasPaddingSupport = always, hasMarginSupport = always,
       useIsHeightDisabled = never, useIsMinHeightDisabled = never,
       useIsPaddingDisabled = never, useIsMarginDisabled = never \<rparr>"

definition unsupportedHost :: env where
  "unsupportedHost =
     (webHost JUndefined)
       \<lparr> hasHeightSupport := never, hasMinHeightSupport := never,
         hasPaddingSupport := never, hasMarginSupport := never \<rparr>"

definition disabledHost :: env where
  "disabledHost =
     (webHost JUndefined)
       \<lparr> useIsHeightDisabled := always, useIsMinHeightDisabled := always,
         useIsPaddingDisabled := always, useIsMarginDisabled := always \<rparr>"

definition nativeHost :: env where
  "nativeHost = (webHost JUndefined) \<lparr> Platform_OS := ''native'' \<rparr>"

definition obj :: "(string \<times> jsval) list \<Rightarrow> jsval" where
  "obj entries = JObj (fmap_of_list entries)"

definition groupBlock :: "jsval \<Rightarrow> props" where
  "groupBlock style = \<lparr> name = ''core/group'', attributes = obj [(''style'', style)] \<rparr>"

section \<open>Auxiliary notions\<close>

text \<open>
  The inner object literal of \<open>resetAll\<close>: the spread of a category with two of its
  features written as \<open>undefined\<close>.
\<close>

definition cleared :: "string \<Rightarrow> string \<Rightarrow> jsval \<Rightarrow> jsval" where
  "cleared f1 f2 v = JObj (fmupd f2 JUndefined (fmupd f1 JUndefined (spread v)))"

section \<open>Properties of the pruning rule\<close>

lemma lookup_pruned:
  "fmlookup (pruneEntries (fmmap cleanEmptyObject m)) k =
     (case fmlookup m k of
        None \<Rightarrow> None
      | Some v \<Rightarrow> if isVacuous (cleanEmptyObject v) then None else Some (cleanEmptyObject v))"
  by (simp add: pruneEntries_def split: option.splits)

lemma cleanEmptyObject_idem: "cleanEmptyObject (cleanEmptyObject v) = cleanEmptyObject v"
proof (induction v)
  case (JObj m)
  have "pruneEntries (fmmap cleanEmptyObject (pruneEntries (fmmap cleanEmptyObject m))) =
        pruneEntries (fmmap cleanEmptyObject m)" (is "?L = ?R")
  proof (rule fmap_ext)
    fix k
    show "fmlookup ?L k = fmlookup ?R k"
    proof (cases "fmlookup m k")
      case None
      then show ?thesis by (simp add: lookup_pruned)
    next
      case (Some v)
      then have "v \<in> fmran' m" by (rule fmran'I)
      then have "cleanEmptyObject (cleanEmptyObject v) = cleanEmptyObject v" by (rule JObj.IH)
      with Some show ?thesis by (simp add: lookup_pruned)
    qed
  qed
  then show ?case by simp
qed simp_all

lemma prune_clean_idem:
  "pruneEntries (fmmap cleanEmptyObject (pruneEntries (fmmap cleanEmptyObject m))) =
   pruneEntries (fmmap cleanEmptyObject m)"
  using cleanEmptyObject_idem [of "JObj m"] by simp

lemma noEmptyContainers_clean: "noEmptyContainers (cleanEmptyObject v)"
proof (induction v)
  case (JObj m)
  have "fmpred (\<lambda>k v. v \<noteq> JObj fmempty) (pruneEntries (fmmap cleanEmptyObject m))"
    by (auto simp: fmpred_iff lookup_pruned isVacuous_def split: option.splits if_splits)
  moreover
  have "fmpred (\<lambda>k b. b) (fmmap noEmptyContainers (pruneEntries (fmmap cleanEmptyObject m)))"
    using JObj.IH
    by (auto simp: fmpred_iff lookup_pruned dest!: fmran'I split: option.splits if_splits)
  ultimately show ?case by simp
qed simp_all

lemma noEmptyContainers_rejects: "\<not> noEmptyContainers (obj [(''spacing'', obj [])])"
  by code_simp

lemma clean_cleared_category:
  "cleanEmptyObject (JObj (fmupd f2 JUndefined (fmupd f1 JUndefined c))) =
   JObj (fmdrop f2 (fmdrop f1 (pruneEntries (fmmap cleanEmptyObject c))))"
proof -
  have "pruneEntries (fmmap cleanEmptyObject (fmupd f2 JUndefined (fmupd f1 JUndefined c))) =
        fmdrop f2 (fmdrop f1 (pruneEntries (fmmap cleanEmptyObject c)))"
    by (rule fmap_ext) (simp add: lookup_pruned isVacuous_def)
  then show ?thesis by simp
qed

lemma clean_dropped_category:
  "cleanEmptyObject (JObj (fmdrop f2 (fmdrop f1 c))) =
   JObj (fmdrop f2 (fmdrop f1 (pruneEntries (fmmap cleanEmptyObject c))))"
proof -
  have "pruneEntries (fmmap cleanEmptyObject (fmdrop f2 (fmdrop f1 c))) =
        fmdrop f2 (fmdrop f1 (pruneEntries (fmmap cleanEmptyObject c)))"
    by (rule fmap_ext) (simp add: lookup_pruned isVacuous_def)
  then show ?thesis by simp
qed

section \<open>The reset of the source and the reset of the specification\<close>

lemma lookup_setAbsent:
  "fmlookup (setAbsent category feature s) k =
     (if k = category
      then (case fmlookup s category of
              Some (JObj c) \<Rightarrow> Some (JObj (fmdrop feature c))
            | r \<Rightarrow> r)
      else fmlookup s k)"
  by (simp add: setAbsent_def split: option.splits jsval.splits)

lemma resetAllStyle_lookup:
  "resetAllStyle style = JObj (pruneEntries (fmmap cleanEmptyObject
       (fmupd ''spacing'' (cleared ''margin'' ''padding'' (optChain style ''spacing''))
       (fmupd ''dimensions'' (cleared ''height'' ''minHeight'' (optChain style ''dimensions''))
       (spread style)))))"
  by (simp add: resetAllStyle_def cleared_def)

lemma category_agrees:
  assumes "isCategory (fmlookup s c)"
  shows "(if isVacuous (cleanEmptyObject (JObj (fmupd f2 JUndefined (fmupd f1 JUndefined
                (spread (orUndefined (fmlookup s c)))))))
          then None
          else Some (cleanEmptyObject (JObj (fmupd f2 JUndefined (fmupd f1 JUndefined
                (spread (orUndefined (fmlookup s c))))))))
       = (case (case (case fmlookup s c of
                        Some (JObj c') \<Rightarrow> Some (JObj (fmdrop f1 c'))
                      | r \<Rightarrow> r) of
                  Some (JObj c') \<Rightarrow> Some (JObj (fmdrop f2 c'))
                | r \<Rightarrow> r) of
            None \<Rightarrow> None
          | Some v \<Rightarrow> if isVacuous (cleanEmptyObject v) then None else Some (cleanEmptyObject v))"
proof (cases "fmlookup s c")
  case None
  then show ?thesis
    by (simp add: orUndefined_def clean_cleared_category pruneEntries_def isVacuous_def)
next
  case (Some v)
  with assms show ?thesis
    by (cases v)
       (simp_all add: isCategory_def orUndefined_def clean_cleared_category
          clean_dropped_category pruneEntries_def isVacuous_def del: cleanEmptyObject.simps(7))
qed

lemma resetAllStyle_meets_spec:
  assumes "isStyleObject (JObj s)"
  shows "resetAllStyle (JObj s) = resetAllSpec s"
proof -
  from assms have d: "isCategory (fmlookup s ''dimensions'')"
    and p: "isCategory (fmlookup s ''spacing'')"
    by (simp_all add: isStyleObject_def)
  have "pruneEntries (fmmap cleanEmptyObject
         (fmupd ''spacing''
            (JObj (fmupd ''padding'' JUndefined (fmupd ''margin'' JUndefined
               (spread (orUndefined (fmlookup s ''spacing''))))))
         (fmupd ''dimensions''
            (JObj (fmupd ''minHeight'' JUndefined (fmupd ''height'' JUndefined
               (spread (orUndefined (fmlookup s ''dimensions''))))))
          s))) =
       pruneEntries (fmmap cleanEmptyObject
         (setAbsent ''spacing'' ''padding'' (setAbsent ''spacing'' ''margin''
         (setAbsent ''dimensions'' ''minHeight'' (setAbsent ''dimensions'' ''height'' s)))))"
    (is "?L = ?R")
  proof (rule fmap_ext)
    fix k
    consider "k = ''spacing''" | "k = ''dimensions''"
      | "k \<noteq> ''spacing''" "k \<noteq> ''dimensions''" by blast
    then show "fmlookup ?L k = fmlookup ?R k"
    proof cases
      case 1
      show ?thesis
        unfolding lookup_pruned lookup_setAbsent
        using category_agrees [OF p, of "''padding''" "''margin''"] 1
        by (simp del: cleanEmptyObject.simps(7))
    next
      case 2
      show ?thesis
        unfolding lookup_pruned lookup_setAbsent
        using category_agrees [OF d, of "''minHeight''" "''height''"] 2
        by (simp del: cleanEmptyObject.simps(7))
    next
      case 3
      then show ?thesis
        by (simp add: lookup_pruned lookup_setAbsent)
    qed
  qed
  then show ?thesis
    by (simp add: resetAllStyle_def resetAllSpec_def optChain_def)
qed

text \<open>
  Outside the data model the two part ways: a category that holds a scalar spreads to
  nothing, so the source drops it, where removing a field of it would leave it alone.
\<close>

lemma scalar_category_dropped:
  "resetAllStyle (obj [(''dimensions'', JBool True)]) = obj [] \<and>
   resetAllSpec (fmap_of_list [(''dimensions'', JBool True)]) = obj [(''dimensions'', JBool True)]"
  by code_simp

section \<open>A reset style is a fixed point of the reset\<close>

lemma cleared_category_entry:
  assumes "(if isVacuous (cleanEmptyObject (cleared f1 f2 v)) then None
            else Some (cleanEmptyObject (cleared f1 f2 v))) = r"
  shows "r = None \<or>
         (\<exists>P. r = Some (JObj P) \<and> P \<noteq> fmempty \<and> fmlookup P f1 = None \<and> fmlookup P f2 = None \<and>
              pruneEntries (fmmap cleanEmptyObject P) = P)"
proof -
  let ?Q = "pruneEntries (fmmap cleanEmptyObject (spread v))"
  let ?P = "fmdrop f2 (fmdrop f1 ?Q)"
  from assms have a: "(if isVacuous (JObj ?P) then None else Some (JObj ?P)) = r"
    unfolding cleared_def clean_cleared_category .
  have "pruneEntries (fmmap cleanEmptyObject ?P) = ?P"
  proof (rule fmap_ext)
    fix k
    have "fmlookup (pruneEntries (fmmap cleanEmptyObject ?Q)) k = fmlookup ?Q k"
      by (simp only: prune_clean_idem)
    then show "fmlookup (pruneEntries (fmmap cleanEmptyObject ?P)) k = fmlookup ?P k"
      by (simp add: lookup_pruned)
  qed
  with a show ?thesis
    by (auto simp: isVacuous_def split: if_splits)
qed

lemma cleared_fixed:
  assumes "r = None \<or>
           (\<exists>P. r = Some (JObj P) \<and> P \<noteq> fmempty \<and> fmlookup P f1 = None \<and> fmlookup P f2 = None \<and>
                pruneEntries (fmmap cleanEmptyObject P) = P)"
  shows "(if isVacuous (cleanEmptyObject (cleared f1 f2 (orUndefined r))) then None
          else Some (cleanEmptyObject (cleared f1 f2 (orUndefined r)))) = r"
  using assms
proof
  assume "r = None"
  then show ?thesis
    by (simp add: cleared_def orUndefined_def clean_cleared_category pruneEntries_def
          isVacuous_def)
next
  assume "\<exists>P. r = Some (JObj P) \<and> P \<noteq> fmempty \<and> fmlookup P f1 = None \<and> fmlookup P f2 = None \<and>
              pruneEntries (fmmap cleanEmptyObject P) = P"
  then obtain P where r: "r = Some (JObj P)" and ne: "P \<noteq> fmempty"
    and f: "fmlookup P f1 = None" "fmlookup P f2 = None"
    and fx: "pruneEntries (fmmap cleanEmptyObject P) = P" by blast
  have "fmdrop f2 (fmdrop f1 P) = P"
    by (rule fmap_ext) (use f in auto)
  with r ne fx show ?thesis
    by (simp add: cleared_def orUndefined_def clean_cleared_category isVacuous_def
          del: cleanEmptyObject.simps(7))
qed

lemma resetAllStyle_idem: "resetAllStyle (resetAllStyle style) = resetAllStyle style"
proof -
  let ?B = "\<lambda>st. fmupd ''spacing'' (cleared ''margin'' ''padding'' (optChain st ''spacing''))
       (fmupd ''dimensions'' (cleared ''height'' ''minHeight'' (optChain st ''dimensions''))
       (spread st))"
  let ?M = "pruneEntries (fmmap cleanEmptyObject (?B style))"
  let ?S = "cleared ''margin'' ''padding'' (orUndefined (fmlookup ?M ''spacing''))"
  let ?D = "cleared ''height'' ''minHeight'' (orUndefined (fmlookup ?M ''dimensions''))"
  have M: "resetAllStyle style = JObj ?M" by (rule resetAllStyle_lookup)
  have sp: "(if isVacuous (cleanEmptyObject ?S) then None else Some (cleanEmptyObject ?S)) =
            fmlookup ?M ''spacing''"
    by (rule cleared_fixed, rule cleared_category_entry) (simp add: lookup_pruned)
  have di: "(if isVacuous (cleanEmptyObject ?D) then None else Some (cleanEmptyObject ?D)) =
            fmlookup ?M ''dimensions''"
    by (rule cleared_fixed, rule cleared_category_entry) (simp add: lookup_pruned)
  have "pruneEntries (fmmap cleanEmptyObject (?B (JObj ?M))) = ?M"
  proof (rule fmap_ext)
    fix k
    consider "k = ''spacing''" | "k = ''dimensions''"
      | "k \<noteq> ''spacing''" "k \<noteq> ''dimensions''" by blast
    then show "fmlookup (pruneEntries (fmmap cleanEmptyObject (?B (JObj ?M)))) k = fmlookup ?M k"
    proof cases
      case 1
      have "fmlookup (pruneEntries (fmmap cleanEmptyObject (?B (JObj ?M)))) ''spacing'' =
            (if isVacuous (cleanEmptyObject ?S) then None else Some (cleanEmptyObject ?S))"
        by (simp add: lookup_pruned optChain_def del: cleanEmptyObject.simps(7))
      with sp 1 show ?thesis by simp
    next
      case 2
      have "fmlookup (pruneEntries (fmmap cleanEmptyObject (?B (JObj ?M)))) ''dimensions'' =
            (if isVacuous (cleanEmptyObject ?D) then None else Some (cleanEmptyObject ?D))"
        by (simp add: lookup_pruned optChain_def del: cleanEmptyObject.simps(7))
      with di 2 show ?thesis by simp
    next
      case 3
      have "fmlookup (?B (JObj ?M)) k = fmlookup ?M k"
        using 3 by simp
      then have "fmlookup (pruneEntries (fmmap cleanEmptyObject (?B (JObj ?M)))) k =
                 fmlookup (pruneEntries (fmmap cleanEmptyObject ?M)) k"
        by (simp only: lookup_pruned [of "?B (JObj ?M)" k] lookup_pruned [of ?M k])
      then show ?thesis by (simp only: prune_clean_idem)
    qed
  qed
  then have "resetAllStyle (JObj ?M) = JObj ?M"
    by (simp only: resetAllStyle_lookup)
  with M show ?thesis by simp
qed

section \<open>The side configuration, case by case\<close>

lemma declared_sides:
  assumes "getBlockSupport E blockName [''spacing''] = JObj m"
  shows "useCustomSides E blockName feature =
           (case fmlookup m feature of
              None \<Rightarrow> JUndefined
            | Some (JBool c) \<Rightarrow> JUndefined
            | Some declared \<Rightarrow> declared)"
  using assms
  by (auto simp: useCustomSides_def SPACING_SUPPORT_KEY_def orUndefined_def Let_def
      split: option.splits jsval.splits)

lemma undeclared_sides:
  assumes "\<not> toBoolean (getBlockSupport E blockName [''spacing'']) \<or>
           getBlockSupport E blockName [''spacing''] = JBool c"
  shows "useCustomSides E blockName feature = JUndefined"
  using assms by (auto simp: useCustomSides_def SPACING_SUPPORT_KEY_def)

lemma validity_of_sides:
  "useIsDimensionsSupportValid E blockName feature =
     (case useCustomSides E blockName feature of
        JArr xs \<Rightarrow>
          if (\<exists>s \<in> set xs. s \<in> set ALL_SIDES) \<and> (\<exists>s \<in> set xs. s \<in> set AXIAL_SIDES)
          then (Inr False, [sidesWarning feature blockName])
          else (Inr True, [])
      | v \<Rightarrow> if toBoolean v then (Inl TypeError, []) else (Inr True, []))"
  by (auto simp: useIsDimensionsSupportValid_def Let_def some_def includes_arr_def list_ex_iff
      split: jsval.splits)

lemma host_support:
  "getBlockSupport (webHost declared) blockName [''spacing''] = declared"
  by (simp add: webHost_def spacingRegistry_def SPACING_SUPPORT_KEY_def)

lemma panel_rendered: "DimensionsPanel (webHost JUndefined) (groupBlock (obj [])) \<noteq> None"
  by (simp add: DimensionsPanel_def hasDimensionsSupport_def useIsDimensionsDisabled_def
        webHost_def always_def never_def Let_def)

section \<open>Claims on the side configuration\<close>

text \<open>
  C5. For every block name and feature, \<open>useCustomSides\<close> returns \<open>undefined\<close> when the
  block has no spacing support configuration, when that configuration says nothing about
  the feature, and when the feature's configured value is a boolean; otherwise it returns
  the configured value as it is, so a declared list of sides comes back unchanged.
\<close>

theorem useCustomSides_declared:
  "(\<not> toBoolean (getBlockSupport E blockName [''spacing'']) \<longrightarrow>
      useCustomSides E blockName feature = JUndefined) \<and>
   (getBlockSupport E blockName [''spacing''] = JObj m \<and> fmlookup m feature = None \<longrightarrow>
      useCustomSides E blockName feature = JUndefined) \<and>
   (getBlockSupport E blockName [''spacing''] = JObj m \<and> fmlookup m feature = Some (JBool c) \<longrightarrow>
      useCustomSides E blockName feature = JUndefined) \<and>
   (getBlockSupport E blockName [''spacing''] = JObj m \<and> fmlookup m feature = Some declared \<and>
    typeof declared \<noteq> ''boolean'' \<longrightarrow>
      useCustomSides E blockName feature = declared)"
  by (auto simp: declared_sides undeclared_sides split: jsval.splits)

theorem useCustomSides_declared_witness:
  "useCustomSides (webHost (obj [(''margin'', JArr [JStr ''top'', JStr ''bottom'']),
                                 (''padding'', JBool True)])) ''core/group'' ''margin''
     = JArr [JStr ''top'', JStr ''bottom''] \<and>
   useCustomSides (webHost (obj [(''margin'', JArr [JStr ''top'', JStr ''bottom'']),
                                 (''padding'', JBool True)])) ''core/group'' ''padding''
     = JUndefined \<and>
   useCustomSides (webHost (obj [(''margin'', JArr [JStr ''top'', JStr ''bottom'']),
                                 (''padding'', JBool True)])) ''core/group'' ''blockGap''
     = JUndefined \<and>
   useCustomSides (webHost JUndefined) ''core/group'' ''margin'' = JUndefined"
proof -
  let ?decl = "[(''margin'', JArr [JStr ''top'', JStr ''bottom'']), (''padding'', JBool True)]"
  have h: "getBlockSupport (webHost (obj ?decl)) ''core/group'' [''spacing''] =
             JObj (fmap_of_list ?decl)"
    by (simp add: host_support obj_def)
  have m: "fmlookup (fmap_of_list ?decl) ''margin'' = Some (JArr [JStr ''top'', JStr ''bottom''])"
    and t: "typeof (JArr [JStr ''top'', JStr ''bottom'']) \<noteq> ''boolean''"
    and p: "fmlookup (fmap_of_list ?decl) ''padding'' = Some (JBool True)"
    and g: "fmlookup (fmap_of_list ?decl) ''blockGap'' = None"
    by simp_all
  have u: "\<not> toBoolean (getBlockSupport (webHost JUndefined) ''core/group'' [''spacing''])"
    by (simp add: host_support)
  from useCustomSides_declared [of "webHost (obj ?decl)" "''core/group''" "''margin''"
         "fmap_of_list ?decl" True "JArr [JStr ''top'', JStr ''bottom'']"] h m t
  have 1: "useCustomSides (webHost (obj ?decl)) ''core/group'' ''margin'' =
             JArr [JStr ''top'', JStr ''bottom'']"
    by blast
  from useCustomSides_declared [of "webHost (obj ?decl)" "''core/group''" "''padding''"
         "fmap_of_list ?decl" True JNull] h p
  have 2: "useCustomSides (webHost (obj ?decl)) ''core/group'' ''padding'' = JUndefined"
    by blast
  from useCustomSides_declared [of "webHost (obj ?decl)" "''core/group''" "''blockGap''"
         "fmap_of_list ?decl" True JNull] h g
  have 3: "useCustomSides (webHost (obj ?decl)) ''core/group'' ''blockGap'' = JUndefined"
    by blast
  from useCustomSides_declared [of "webHost JUndefined" "''core/group''" "''margin''"
         fmempty True JNull] u
  have 4: "useCustomSides (webHost JUndefined) ''core/group'' ''margin'' = JUndefined"
    by blast
  from 1 2 3 4 show ?thesis by blast
qed

text \<open>
  C4. For every block name and feature whose declared list of sides contains at least
  one individual side (top, right, bottom, left) and at least one axial side (vertical,
  horizontal), \<open>useIsDimensionsSupportValid\<close> returns \<open>false\<close> and writes exactly one
  warning, "The <feature> support for the "<blockName>" block can not be configured to
  support both axial and arbitrary sides.", which names the feature and the block.
\<close>

theorem mixed_sides_rejected:
  assumes "getBlockSupport E blockName [''spacing''] = JObj m"
      and "fmlookup m feature = Some (JArr xs)"
      and "\<exists>s \<in> set xs. s \<in> set ALL_SIDES"
      and "\<exists>s \<in> set xs. s \<in> set AXIAL_SIDES"
  shows "useIsDimensionsSupportValid E blockName feature =
           (Inr False,
            [''The '' @ feature @ '' support for the '' @ [CHR 0x22] @ blockName @ [CHR 0x22] @
             '' block can not be configured to support both axial and arbitrary sides.''])"
  using assms by (simp add: validity_of_sides declared_sides sidesWarning_def)

theorem mixed_sides_rejected_witness:
  "useIsDimensionsSupportValid
     (webHost (obj [(''margin'', JArr [JStr ''top'', JStr ''vertical''])]))
     ''core/group'' ''margin'' =
   (Inr False,
    [''The margin support for the '' @ [CHR 0x22] @ ''core/group'' @ [CHR 0x22] @
     '' block can not be configured to support both axial and arbitrary sides.''])"
proof -
  let ?decl = "[(''margin'', JArr [JStr ''top'', JStr ''vertical''])]"
  have h: "getBlockSupport (webHost (obj ?decl)) ''core/group'' [''spacing''] =
             JObj (fmap_of_list ?decl)"
    by (simp add: host_support obj_def)
  have m: "fmlookup (fmap_of_list ?decl) ''margin'' = Some (JArr [JStr ''top'', JStr ''vertical''])"
    by simp
  have a: "\<exists>s \<in> set [JStr ''top'', JStr ''vertical'']. s \<in> set ALL_SIDES"
    and b: "\<exists>s \<in> set [JStr ''top'', JStr ''vertical'']. s \<in> set AXIAL_SIDES"
    by (simp_all add: ALL_SIDES_def AXIAL_SIDES_def)
  from mixed_sides_rejected [OF h m a b] show ?thesis by simp
qed

section \<open>Claims on the reset\<close>

text \<open>
  C8. For the style \<open>{ spacing: { margin: { top: "10px" } } }\<close>, resetting the margin
  produces the style \<open>{}\<close>: the spacing container is removed because it has become empty.
  The reset of the whole panel gives the same style on this input.
\<close>

theorem reset_margin_scenario:
  "resetMargin (groupBlock (obj [(''spacing'', obj [(''margin'', obj [(''top'', JStr ''10px'')])])])) =
     [obj [(''style'', obj [])]] \<and>
   resetAll (groupBlock (obj [(''spacing'', obj [(''margin'', obj [(''top'', JStr ''10px'')])])])) =
     Inr [obj [(''style'', obj [])]]"
  by code_simp

text \<open>
  C1. For every attributes object that carries a style object (in the sense of the data
  model: its \<open>dimensions\<close> and \<open>spacing\<close> categories, where present, are objects), the
  reset action of the panel calls the attribute setter exactly once, and the style it
  passes is the current
  style with \<open>dimensions.height\<close>, \<open>dimensions.minHeight\<close>, \<open>spacing.margin\<close> and
  \<open>spacing.padding\<close> set to absent and every nested object emptied by that removed,
  recursively: a single update, not four and not a partial one.
\<close>

theorem resetAll_single_update:
  assumes "attributes props = JObj a"
      and "fmlookup a ''style'' = Some (JObj s)"
      and "isStyleObject (JObj s)"
  shows "resetAll props = Inr [JObj (fmupd ''style'' (resetAllSpec s) fmempty)]"
  using assms by (simp add: resetAll_def orUndefined_def resetAllStyle_meets_spec)

theorem resetAll_single_update_witness:
  "isStyleObject (obj [(''color'', obj [(''text'', JStr ''#111'')]),
                       (''dimensions'', obj [(''height'', JStr ''100px'')]),
                       (''spacing'', obj [(''margin'', obj [(''top'', JStr ''10px'')]),
                                         (''blockGap'', JStr ''2em'')])]) \<and>
   resetAll (groupBlock (obj [(''color'', obj [(''text'', JStr ''#111'')]),
                              (''dimensions'', obj [(''height'', JStr ''100px'')]),
                              (''spacing'', obj [(''margin'', obj [(''top'', JStr ''10px'')]),
                                                (''blockGap'', JStr ''2em'')])])) =
   Inr [obj [(''style'', obj [(''color'', obj [(''text'', JStr ''#111'')]),
                              (''spacing'', obj [(''blockGap'', JStr ''2em'')])])]]"
proof -
  let ?s = "[(''color'', obj [(''text'', JStr ''#111'')]),
             (''dimensions'', obj [(''height'', JStr ''100px'')]),
             (''spacing'', obj [(''margin'', obj [(''top'', JStr ''10px'')]),
                               (''blockGap'', JStr ''2em'')])]"
  have h1: "attributes (groupBlock (obj ?s)) = JObj (fmap_of_list [(''style'', obj ?s)])"
    by (simp add: groupBlock_def obj_def)
  have h2: "fmlookup (fmap_of_list [(''style'', obj ?s)]) ''style'' = Some (JObj (fmap_of_list ?s))"
    by (simp add: obj_def)
  have h3: "isStyleObject (JObj (fmap_of_list ?s))"
    by (simp add: isStyleObject_def isCategory_def obj_def)
  have v: "resetAllSpec (fmap_of_list ?s) =
             obj [(''color'', obj [(''text'', JStr ''#111'')]),
                  (''spacing'', obj [(''blockGap'', JStr ''2em'')])]"
    by code_simp
  from resetAll_single_update [OF h1 h2 h3] h3 v show ?thesis
    by (simp add: obj_def)
qed

text \<open>
  C2. For every style, the style produced by the reset action holds no empty object at
  any nesting level below itself: a category or feature container emptied by the
  deletions is removed, and so is every container emptied by that in turn.  The style
  passed to the setter is always an object.
\<close>

theorem resetAll_no_empty_containers:
  "noEmptyContainers (resetAllStyle style) \<and>
   (\<exists>m. resetAllStyle style = JObj m) \<and>
   (resetAll props = Inr updates \<longrightarrow>
      (\<forall>u \<in> set updates. noEmptyContainers (getProp u ''style'')))"
proof (intro conjI impI)
  show "noEmptyContainers (resetAllStyle style)"
    unfolding resetAllStyle_def by (rule noEmptyContainers_clean)
  show "\<exists>m. resetAllStyle style = JObj m"
    by (simp add: resetAllStyle_def)
  assume "resetAll props = Inr updates"
  then have "updates =
      [JObj (fmupd ''style'' (resetAllStyle (getProp (attributes props) ''style'')) fmempty)]"
    by (auto simp: resetAll_def split: if_splits)
  moreover have "noEmptyContainers (resetAllStyle (getProp (attributes props) ''style''))"
    unfolding resetAllStyle_def by (rule noEmptyContainers_clean)
  ultimately show "\<forall>u \<in> set updates. noEmptyContainers (getProp u ''style'')"
    by (simp add: orUndefined_def)
qed

theorem resetAll_no_empty_containers_witness:
  "resetAll (groupBlock (obj [(''dimensions'', obj [(''height'', JStr ''100px'')]),
                              (''border'', obj [(''radius'', obj [])])])) =
     Inr [obj [(''style'', obj [])]] \<and>
   noEmptyContainers (getProp (obj [(''style'', obj [])]) ''style'')"
proof -
  let ?p = "groupBlock (obj [(''dimensions'', obj [(''height'', JStr ''100px'')]),
                             (''border'', obj [(''radius'', obj [])])])"
  have r: "resetAll ?p = Inr [obj [(''style'', obj [])]]"
    by code_simp
  from resetAll_no_empty_containers [of _ ?p "[obj [(''style'', obj [])]]"] r
  have "\<forall>u \<in> set [obj [(''style'', obj [])]]. noEmptyContainers (getProp u ''style'')"
    by blast
  with r show ?thesis by simp
qed

text \<open>
  C7. The reset action is idempotent: for every style, applying the reset transformation
  (delete the four feature fields, then prune empty containers) to its own result gives
  that result again; and once the update of a reset has been merged into the attributes,
  a second reset passes the same update.
\<close>

theorem resetAll_idempotent:
  "resetAllStyle (resetAllStyle style) = resetAllStyle style \<and>
   (attributes props = JObj a \<longrightarrow>
      resetAll (props \<lparr> attributes :=
                  JObj (fmupd ''style'' (resetAllStyle (getProp (JObj a) ''style'')) a) \<rparr>) =
      resetAll props)"
  by (simp add: resetAll_def orUndefined_def resetAllStyle_idem)

theorem resetAll_idempotent_witness:
  "resetAll (groupBlock (obj [(''spacing'', obj [(''padding'', JStr ''1em''),
                                                 (''blockGap'', JStr ''2em'')])])) =
     Inr [obj [(''style'', obj [(''spacing'', obj [(''blockGap'', JStr ''2em'')])])]] \<and>
   resetAll (groupBlock (obj [(''spacing'', obj [(''blockGap'', JStr ''2em'')])])) =
     Inr [obj [(''style'', obj [(''spacing'', obj [(''blockGap'', JStr ''2em'')])])]]"
proof -
  let ?s = "obj [(''spacing'', obj [(''padding'', JStr ''1em''), (''blockGap'', JStr ''2em'')])]"
  let ?t = "obj [(''spacing'', obj [(''blockGap'', JStr ''2em'')])]"
  have a: "attributes (groupBlock ?s) = JObj (fmap_of_list [(''style'', ?s)])"
    by (simp add: groupBlock_def obj_def)
  have r: "resetAll (groupBlock ?s) = Inr [obj [(''style'', ?t)]]"
    by code_simp
  have t: "resetAllStyle (getProp (JObj (fmap_of_list [(''style'', ?s)])) ''style'') = ?t"
    by code_simp
  have u: "(groupBlock ?s) \<lparr> attributes :=
             JObj (fmupd ''style'' ?t (fmap_of_list [(''style'', ?s)])) \<rparr> = groupBlock ?t"
    by (simp add: groupBlock_def obj_def)
  from resetAll_idempotent [of _ "groupBlock ?s" "fmap_of_list [(''style'', ?s)]"] a
  have "resetAll ((groupBlock ?s) \<lparr> attributes :=
          JObj (fmupd ''style''
            (resetAllStyle (getProp (JObj (fmap_of_list [(''style'', ?s)])) ''style''))
            (fmap_of_list [(''style'', ?s)])) \<rparr>) = resetAll (groupBlock ?s)"
    by blast
  then have "resetAll (groupBlock ?t) = resetAll (groupBlock ?s)"
    by (simp only: t u)
  with r show ?thesis by simp
qed

section \<open>Claims on the validity of the declared sides\<close>

text \<open>
  C3 (amended). For every block name and feature with a declared list of sides,
  \<open>useIsDimensionsSupportValid\<close> reports the list as valid if and only if the list does
  not contain both an individual side (top, right, bottom, left) and an axial side
  (vertical, horizontal).  Every list within the four individual sides, and every list
  within the two axial sides, is therefore valid, but so is a list with other names, as
  long as it does not mix the two groups.  An absent configuration is valid.
\<close>

theorem sides_valid_unless_mixed:
  "(getBlockSupport E blockName [''spacing''] = JObj m \<and> fmlookup m feature = Some (JArr xs) \<longrightarrow>
      (useIsDimensionsSupportValid E blockName feature = (Inr True, []) \<longleftrightarrow>
         \<not> ((\<exists>s \<in> set xs. s \<in> set ALL_SIDES) \<and> (\<exists>s \<in> set xs. s \<in> set AXIAL_SIDES))) \<and>
      (fst (useIsDimensionsSupportValid E blockName feature) = Inr False \<longleftrightarrow>
         (\<exists>s \<in> set xs. s \<in> set ALL_SIDES) \<and> (\<exists>s \<in> set xs. s \<in> set AXIAL_SIDES)) \<and>
      (set xs \<subseteq> set ALL_SIDES \<or> set xs \<subseteq> set AXIAL_SIDES \<longrightarrow>
         useIsDimensionsSupportValid E blockName feature = (Inr True, []))) \<and>
   (useCustomSides E blockName feature = JUndefined \<longrightarrow>
      useIsDimensionsSupportValid E blockName feature = (Inr True, []))"
proof (rule conjI)
  show "useCustomSides E blockName feature = JUndefined \<longrightarrow>
          useIsDimensionsSupportValid E blockName feature = (Inr True, [])"
    by (simp add: validity_of_sides)
next
  have disjoint: "set ALL_SIDES \<inter> set AXIAL_SIDES = {}"
    by (simp add: ALL_SIDES_def AXIAL_SIDES_def)
  show "getBlockSupport E blockName [''spacing''] = JObj m \<and> fmlookup m feature = Some (JArr xs) \<longrightarrow>
      (useIsDimensionsSupportValid E blockName feature = (Inr True, []) \<longleftrightarrow>
         \<not> ((\<exists>s \<in> set xs. s \<in> set ALL_SIDES) \<and> (\<exists>s \<in> set xs. s \<in> set AXIAL_SIDES))) \<and>
      (fst (useIsDimensionsSupportValid E blockName feature) = Inr False \<longleftrightarrow>
         (\<exists>s \<in> set xs. s \<in> set ALL_SIDES) \<and> (\<exists>s \<in> set xs. s \<in> set AXIAL_SIDES)) \<and>
      (set xs \<subseteq> set ALL_SIDES \<or> set xs \<subseteq> set AXIAL_SIDES \<longrightarrow>
         useIsDimensionsSupportValid E blockName feature = (Inr True, []))"
  proof (rule impI)
    assume "getBlockSupport E blockName [''spacing''] = JObj m \<and>
            fmlookup m feature = Some (JArr xs)"
    then have v: "useIsDimensionsSupportValid E blockName feature =
        (if (\<exists>s \<in> set xs. s \<in> set ALL_SIDES) \<and> (\<exists>s \<in> set xs. s \<in> set AXIAL_SIDES)
         then (Inr False, [sidesWarning feature blockName]) else (Inr True, []))"
      by (simp add: validity_of_sides declared_sides)
    show "(useIsDimensionsSupportValid E blockName feature = (Inr True, []) \<longleftrightarrow>
             \<not> ((\<exists>s \<in> set xs. s \<in> set ALL_SIDES) \<and> (\<exists>s \<in> set xs. s \<in> set AXIAL_SIDES))) \<and>
          (fst (useIsDimensionsSupportValid E blockName feature) = Inr False \<longleftrightarrow>
             (\<exists>s \<in> set xs. s \<in> set ALL_SIDES) \<and> (\<exists>s \<in> set xs. s \<in> set AXIAL_SIDES)) \<and>
          (set xs \<subseteq> set ALL_SIDES \<or> set xs \<subseteq> set AXIAL_SIDES \<longrightarrow>
             useIsDimensionsSupportValid E blockName feature = (Inr True, []))"
      unfolding v using disjoint by auto
  qed
qed

theorem sides_valid_unless_mixed_witness:
  "useIsDimensionsSupportValid
     (webHost (obj [(''padding'', JArr [JStr ''top'', JStr ''bottom''])]))
     ''core/group'' ''padding'' = (Inr True, []) \<and>
   useIsDimensionsSupportValid
     (webHost (obj [(''padding'', JArr [JStr ''top'', JStr ''bottom''])]))
     ''core/group'' ''margin'' = (Inr True, [])"
proof -
  let ?decl = "[(''padding'', JArr [JStr ''top'', JStr ''bottom''])]"
  have h: "getBlockSupport (webHost (obj ?decl)) ''core/group'' [''spacing''] =
             JObj (fmap_of_list ?decl)"
    by (simp add: host_support obj_def)
  have m: "fmlookup (fmap_of_list ?decl) ''padding'' = Some (JArr [JStr ''top'', JStr ''bottom''])"
    by simp
  have sub: "set [JStr ''top'', JStr ''bottom''] \<subseteq> set ALL_SIDES"
    by (simp add: ALL_SIDES_def)
  have absent: "useCustomSides (webHost (obj ?decl)) ''core/group'' ''margin'' = JUndefined"
    using h by (simp add: declared_sides)
  from sides_valid_unless_mixed [of "webHost (obj ?decl)" "''core/group''" "fmap_of_list ?decl"
         "''padding''" "[JStr ''top'', JStr ''bottom'']"] h m sub
  have 1: "useIsDimensionsSupportValid (webHost (obj ?decl)) ''core/group'' ''padding'' =
             (Inr True, [])"
    by blast
  from sides_valid_unless_mixed [of "webHost (obj ?decl)" "''core/group''" "fmap_of_list ?decl"
         "''margin''" "[]"] absent
  have 2: "useIsDimensionsSupportValid (webHost (obj ?decl)) ''core/group'' ''margin'' =
             (Inr True, [])"
    by blast
  from 1 2 show ?thesis by blast
qed

text \<open>
  The claim as first stated, valid if and only if the list lies within the individual
  sides or within the axial sides, fails for the declared list \<open>["foo"]\<close>: it lies within
  neither, and the validator reports it valid.
\<close>

theorem sides_subset_counterexample:
  "useCustomSides (webHost (obj [(''margin'', JArr [JStr ''foo''])])) ''core/group'' ''margin'' =
     JArr [JStr ''foo''] \<and>
   useIsDimensionsSupportValid (webHost (obj [(''margin'', JArr [JStr ''foo''])]))
     ''core/group'' ''margin'' = (Inr True, []) \<and>
   \<not> (set [JStr ''foo''] \<subseteq> set ALL_SIDES \<or> set [JStr ''foo''] \<subseteq> set AXIAL_SIDES)"
  by (simp add: validity_of_sides declared_sides host_support obj_def ALL_SIDES_def
        AXIAL_SIDES_def)

text \<open>
  C10. For every block name and feature, \<open>useIsDimensionsSupportValid\<close> writes its warning
  if and only if it returns \<open>false\<close>, and never more than one.  A declared list that is
  empty, a declared list with only names outside both the individual and the axial sides,
  an absent configuration and a boolean configuration are all reported valid, with no
  warning.
\<close>

theorem warning_iff_invalid:
  "(snd (useIsDimensionsSupportValid E blockName feature) \<noteq> [] \<longleftrightarrow>
      fst (useIsDimensionsSupportValid E blockName feature) = Inr False) \<and>
   length (snd (useIsDimensionsSupportValid E blockName feature)) \<le> 1 \<and>
   (getBlockSupport E blockName [''spacing''] = JObj m \<and> fmlookup m feature = Some (JArr []) \<longrightarrow>
      useIsDimensionsSupportValid E blockName feature = (Inr True, [])) \<and>
   (getBlockSupport E blockName [''spacing''] = JObj m \<and> fmlookup m feature = Some (JArr xs) \<and>
    (\<forall>s \<in> set xs. s \<notin> set ALL_SIDES \<and> s \<notin> set AXIAL_SIDES) \<longrightarrow>
      useIsDimensionsSupportValid E blockName feature = (Inr True, [])) \<and>
   (\<not> toBoolean (getBlockSupport E blockName [''spacing'']) \<longrightarrow>
      useIsDimensionsSupportValid E blockName feature = (Inr True, [])) \<and>
   (getBlockSupport E blockName [''spacing''] = JObj m \<and> fmlookup m feature = None \<longrightarrow>
      useIsDimensionsSupportValid E blockName feature = (Inr True, [])) \<and>
   (getBlockSupport E blockName [''spacing''] = JBool c \<longrightarrow>
      useIsDimensionsSupportValid E blockName feature = (Inr True, [])) \<and>
   (getBlockSupport E blockName [''spacing''] = JObj m \<and> fmlookup m feature = Some (JBool c) \<longrightarrow>
      useIsDimensionsSupportValid E blockName feature = (Inr True, []))"
proof (intro conjI impI)
  show "snd (useIsDimensionsSupportValid E blockName feature) \<noteq> [] \<longleftrightarrow>
        fst (useIsDimensionsSupportValid E blockName feature) = Inr False"
    by (simp add: validity_of_sides split: jsval.splits)
  show "length (snd (useIsDimensionsSupportValid E blockName feature)) \<le> 1"
    by (simp add: validity_of_sides split: jsval.splits)
  show "useIsDimensionsSupportValid E blockName feature = (Inr True, [])"
    if "getBlockSupport E blockName [''spacing''] = JObj m \<and> fmlookup m feature = Some (JArr [])"
    using that by (simp add: validity_of_sides declared_sides)
  show "useIsDimensionsSupportValid E blockName feature = (Inr True, [])"
    if "getBlockSupport E blockName [''spacing''] = JObj m \<and> fmlookup m feature = Some (JArr xs) \<and>
        (\<forall>s \<in> set xs. s \<notin> set ALL_SIDES \<and> s \<notin> set AXIAL_SIDES)"
    using that by (auto simp add: validity_of_sides declared_sides)
  show "useIsDimensionsSupportValid E blockName feature = (Inr True, [])"
    if "\<not> toBoolean (getBlockSupport E blockName [''spacing''])"
    using that by (simp add: validity_of_sides undeclared_sides)
  show "useIsDimensionsSupportValid E blockName feature = (Inr True, [])"
    if "getBlockSupport E blockName [''spacing''] = JObj m \<and> fmlookup m feature = None"
    using that by (simp add: validity_of_sides declared_sides)
  show "useIsDimensionsSupportValid E blockName feature = (Inr True, [])"
    if "getBlockSupport E blockName [''spacing''] = JBool c"
    using that undeclared_sides [of E blockName c feature] by (simp add: validity_of_sides)
  show "useIsDimensionsSupportValid E blockName feature = (Inr True, [])"
    if "getBlockSupport E blockName [''spacing''] = JObj m \<and> fmlookup m feature = Some (JBool c)"
    using that by (simp add: validity_of_sides declared_sides)
qed

theorem warning_iff_invalid_witness:
  "useIsDimensionsSupportValid (webHost (obj [(''margin'', JArr [])])) ''core/group'' ''margin'' =
     (Inr True, []) \<and>
   useIsDimensionsSupportValid (webHost (obj [(''margin'', JArr [JStr ''start'', JStr ''end''])]))
     ''core/group'' ''margin'' = (Inr True, []) \<and>
   useIsDimensionsSupportValid (webHost JUndefined) ''core/group'' ''margin'' = (Inr True, []) \<and>
   useIsDimensionsSupportValid (webHost (obj [])) ''core/group'' ''margin'' = (Inr True, []) \<and>
   useIsDimensionsSupportValid (webHost (JBool True)) ''core/group'' ''margin'' = (Inr True, []) \<and>
   useIsDimensionsSupportValid (webHost (obj [(''margin'', JBool True)])) ''core/group'' ''margin'' =
     (Inr True, [])"
proof -
  have outside: "\<forall>s \<in> set [JStr ''start'', JStr ''end'']. s \<notin> set ALL_SIDES \<and> s \<notin> set AXIAL_SIDES"
    by (simp add: ALL_SIDES_def AXIAL_SIDES_def)
  from warning_iff_invalid [of "webHost (obj [(''margin'', JArr [])])" "''core/group''" "''margin''"
         "fmap_of_list [(''margin'', JArr [])]" "[]" True]
  have 1: "useIsDimensionsSupportValid (webHost (obj [(''margin'', JArr [])]))
             ''core/group'' ''margin'' = (Inr True, [])"
    by (simp add: host_support obj_def)
  from warning_iff_invalid [of "webHost (obj [(''margin'', JArr [JStr ''start'', JStr ''end''])])"
         "''core/group''" "''margin''"
         "fmap_of_list [(''margin'', JArr [JStr ''start'', JStr ''end''])]"
         "[JStr ''start'', JStr ''end'']" True] outside
  have 2: "useIsDimensionsSupportValid
             (webHost (obj [(''margin'', JArr [JStr ''start'', JStr ''end''])]))
             ''core/group'' ''margin'' = (Inr True, [])"
    by (simp add: host_support obj_def)
  from warning_iff_invalid [of "webHost JUndefined" "''core/group''" "''margin''" fmempty "[]" True]
  have 3: "useIsDimensionsSupportValid (webHost JUndefined) ''core/group'' ''margin'' =
             (Inr True, [])"
    by (simp add: host_support)
  from warning_iff_invalid [of "webHost (obj [])" "''core/group''" "''margin''" fmempty "[]" True]
  have 4: "useIsDimensionsSupportValid (webHost (obj [])) ''core/group'' ''margin'' =
             (Inr True, [])"
    by (simp add: host_support obj_def)
  from warning_iff_invalid [of "webHost (JBool True)" "''core/group''" "''margin''" fmempty "[]" True]
  have 5: "useIsDimensionsSupportValid (webHost (JBool True)) ''core/group'' ''margin'' =
             (Inr True, [])"
    by (simp add: host_support)
  from warning_iff_invalid [of "webHost (obj [(''margin'', JBool True)])" "''core/group''"
         "''margin''" "fmap_of_list [(''margin'', JBool True)]" "[]" True]
  have 6: "useIsDimensionsSupportValid (webHost (obj [(''margin'', JBool True)]))
             ''core/group'' ''margin'' = (Inr True, [])"
    by (simp add: host_support obj_def)
  from 1 2 3 4 5 6 show ?thesis by blast
qed

section \<open>Claims on the panel and on the style metadata\<close>

text \<open>
  C6. For every block, the dimensions panel renders nothing when the platform is not the
  web, when the block type supports none of height, minimum height, padding and margin,
  and when all four features are disabled; and \<open>hasDimensionsSupport\<close> returns \<open>false\<close>
  for every block name when the platform is not the web or none of the four features is
  supported.
\<close>

theorem panel_suppressed:
  "(Platform_OS E \<noteq> ''web'' \<or>
    \<not> (hasHeightSupport E blockName \<or> hasMinHeightSupport E blockName \<or>
       hasPaddingSupport E blockName \<or> hasMarginSupport E blockName)
    \<longrightarrow> hasDimensionsSupport E blockName = False) \<and>
   (Platform_OS E \<noteq> ''web'' \<or>
    \<not> (hasHeightSupport E (name props) \<or> hasMinHeightSupport E (name props) \<or>
       hasPaddingSupport E (name props) \<or> hasMarginSupport E (name props)) \<or>
    (useIsHeightDisabled E props \<and> useIsMinHeightDisabled E props \<and>
     useIsPaddingDisabled E props \<and> useIsMarginDisabled E props)
    \<longrightarrow> DimensionsPanel E props = None)"
  by (auto simp: hasDimensionsSupport_def DimensionsPanel_def useIsDimensionsDisabled_def
        Let_def)

theorem panel_suppressed_witness:
  "hasDimensionsSupport nativeHost ''core/group'' = False \<and>
   DimensionsPanel nativeHost (groupBlock (obj [])) = None \<and>
   hasDimensionsSupport unsupportedHost ''core/group'' = False \<and>
   DimensionsPanel unsupportedHost (groupBlock (obj [])) = None \<and>
   DimensionsPanel disabledHost (groupBlock (obj [])) = None"
proof -
  have n: "Platform_OS nativeHost \<noteq> ''web''"
    by (simp add: nativeHost_def webHost_def)
  have u: "\<not> (hasHeightSupport unsupportedHost ''core/group'' \<or>
              hasMinHeightSupport unsupportedHost ''core/group'' \<or>
              hasPaddingSupport unsupportedHost ''core/group'' \<or>
              hasMarginSupport unsupportedHost ''core/group'')"
    by (simp add: unsupportedHost_def webHost_def never_def)
  have d: "useIsHeightDisabled disabledHost (groupBlock (obj [])) \<and>
           useIsMinHeightDisabled disabledHost (groupBlock (obj [])) \<and>
           useIsPaddingDisabled disabledHost (groupBlock (obj [])) \<and>
           useIsMarginDisabled disabledHost (groupBlock (obj []))"
    by (simp add: disabledHost_def webHost_def always_def)
  have g: "name (groupBlock (obj [])) = ''core/group''"
    by (simp add: groupBlock_def)
  from panel_suppressed [of nativeHost "''core/group''" "groupBlock (obj [])"] n
  have 1: "hasDimensionsSupport nativeHost ''core/group'' = False"
    and 2: "DimensionsPanel nativeHost (groupBlock (obj [])) = None"
    by blast+
  from panel_suppressed [of unsupportedHost "''core/group''" "groupBlock (obj [])"] u g
  have 3: "hasDimensionsSupport unsupportedHost ''core/group'' = False"
    and 4: "DimensionsPanel unsupportedHost (groupBlock (obj [])) = None"
    by simp_all
  from panel_suppressed [of disabledHost "''core/group''" "groupBlock (obj [])"] d
  have 5: "DimensionsPanel disabledHost (groupBlock (obj [])) = None"
    by blast
  from 1 2 3 4 5 show ?thesis by blast
qed

text \<open>
  C9. Every entry of the style metadata table is found under its logical property name
  and has a non-empty storage path and a non-empty support path; the mapping from
  sub-properties to sides is optional (some entries have it, some do not).  The margin
  and the padding entry have their storage path equal to their support path,
  \<open>[spacing, margin]\<close> and \<open>[spacing, padding]\<close>, and their sub-properties target exactly
  the four sides top, right, bottom and left.
\<close>

theorem style_metadata_entries:
  "distinct (map fst EXPERIMENTAL_STYLE_PROPERTY) \<and>
   (\<forall>(propertyName, entry) \<in> set EXPERIMENTAL_STYLE_PROPERTY.
       styleProperty propertyName = Some entry \<and> value entry \<noteq> [] \<and> support entry \<noteq> []) \<and>
   (\<exists>(propertyName, entry) \<in> set EXPERIMENTAL_STYLE_PROPERTY. properties entry = None) \<and>
   (\<exists>(propertyName, entry) \<in> set EXPERIMENTAL_STYLE_PROPERTY. properties entry \<noteq> None) \<and>
   styleProperty ''margin'' =
     Some \<lparr> value = [''spacing'', ''margin''], support = [''spacing'', ''margin''],
            properties = Some [ (''marginTop'', ''top''), (''marginRight'', ''right''),
                                (''marginBottom'', ''bottom''), (''marginLeft'', ''left'') ] \<rparr> \<and>
   styleProperty ''padding'' =
     Some \<lparr> value = [''spacing'', ''padding''], support = [''spacing'', ''padding''],
            properties = Some [ (''paddingTop'', ''top''), (''paddingRight'', ''right''),
                                (''paddingBottom'', ''bottom''), (''paddingLeft'', ''left'') ] \<rparr> \<and>
   (\<forall>propertyName \<in> {''margin'', ''padding''}. \<forall>entry sides.
       styleProperty propertyName = Some entry \<and> properties entry = Some sides \<longrightarrow>
       value entry = support entry \<and> snd ` set sides = {''top'', ''right'', ''bottom'', ''left''})"
  by (simp add: styleProperty_def EXPERIMENTAL_STYLE_PROPERTY_def)

theorem style_metadata_entries_witness:
  "styleProperty ''letterSpacing'' =
     Some \<lparr> value = [''typography'', ''letterSpacing''],
            support = [''__experimentalLetterSpacing''], properties = None \<rparr> \<and>
   value \<lparr> value = [''typography'', ''letterSpacing''],
           support = [''__experimentalLetterSpacing''], properties = None \<rparr> \<noteq> [] \<and>
   support \<lparr> value = [''typography'', ''letterSpacing''],
             support = [''__experimentalLetterSpacing''], properties = None \<rparr> \<noteq> [] \<and>
   snd ` set [ (''marginTop'', ''top''), (''marginRight'', ''right''),
               (''marginBottom'', ''bottom''), (''marginLeft'', ''left'') ] =
     {''top'', ''right'', ''bottom'', ''left''}"
proof -
  let ?e = "\<lparr> value = [''typography'', ''letterSpacing''],
              support = [''__experimentalLetterSpacing''], properties = None \<rparr>"
  let ?m = "\<lparr> value = [''spacing'', ''margin''], support = [''spacing'', ''margin''],
              properties = Some [ (''marginTop'', ''top''), (''marginRight'', ''right''),
                                  (''marginBottom'', ''bottom''), (''marginLeft'', ''left'') ] \<rparr>"
  have mem: "(''letterSpacing'', ?e) \<in> set EXPERIMENTAL_STYLE_PROPERTY"
    by (simp add: EXPERIMENTAL_STYLE_PROPERTY_def)
  from style_metadata_entries
  have all: "\<forall>(propertyName, entry) \<in> set EXPERIMENTAL_STYLE_PROPERTY.
       styleProperty propertyName = Some entry \<and> value entry \<noteq> [] \<and> support entry \<noteq> []"
    by (elim conjE)
  from style_metadata_entries
  have mg: "styleProperty ''margin'' = Some ?m"
    by (elim conjE)
  from style_metadata_entries
  have sides: "\<forall>propertyName \<in> {''margin'', ''padding''}. \<forall>entry sides.
       styleProperty propertyName = Some entry \<and> properties entry = Some sides \<longrightarrow>
       value entry = support entry \<and> snd ` set sides = {''top'', ''right'', ''bottom'', ''left''}"
    by (elim conjE)
  from bspec [OF all mem]
  have 1: "styleProperty ''letterSpacing'' = Some ?e \<and> value ?e \<noteq> [] \<and> support ?e \<noteq> []"
    by simp
  have "''margin'' \<in> {''margin'', ''padding''}" by simp
  from bspec [OF sides this] mg
  have 2: "snd ` set [ (''marginTop'', ''top''), (''marginRight'', ''right''),
               (''marginBottom'', ''bottom''), (''marginLeft'', ''left'') ] =
             {''top'', ''right'', ''bottom'', ''left''}"
    by simp
  from 1 2 show ?thesis by blast
qed

end
